theory Spec2Isabelle
  imports Main
begin

section \<open>Middleware Brigade: the dispatch and termination protocol\<close>

text \<open>
  The development embeds the dispatcher of the Middleware Brigade library:
  \<^verbatim>\<open>locatedError\<close>, \<^verbatim>\<open>callMiddleware\<close> and \<^verbatim>\<open>compose\<close> with its closures
  \<^verbatim>\<open>composedMiddleware\<close>, \<^verbatim>\<open>dispatchToMiddleware\<close>, \<^verbatim>\<open>dispatchNext\<close> and
  \<^verbatim>\<open>dispatchTerminate\<close>. The library code is synchronous: it never awaits a promise
  itself, it only passes promises on (and \<^verbatim>\<open>callMiddleware\<close> chains one \<^verbatim>\<open>then\<close>).
  The middleware and the two outer continuations are the environment; they are modelled
  as data so that theorems can quantify over all of them.
\<close>

subsection \<open>JavaScript values, errors and promises\<close>

text \<open>
  Thrown values and rejection reasons. \<^verbatim>\<open>new Error(m)\<close> is \<open>Error m\<close>,
  \<^verbatim>\<open>new TypeError(m)\<close> is \<open>TypeError m\<close>, a failed \<^verbatim>\<open>invariant(cond, m)\<close> is
  \<open>InvariantViolation m\<close>, the engine's own TypeError for calling a missing method is
  \<open>EngineTypeError\<close>, and any other thrown value is \<open>ThrownValue\<close> with a tag.
\<close>

datatype js_error =
    Error string
  | TypeError string
  | InvariantViolation string
  | EngineTypeError
  | ThrownValue nat

text \<open>
  The mutable state of one invocation of a composed unit: the closure variable
  \<^verbatim>\<open>hasTerminated\<close> (the Termination Flag) and whatever the middleware and the
  continuations can observe and change outside the dispatcher (the world, for instance
  the \<^verbatim>\<open>receivedCalls\<close> array of the tests).
\<close>

record 'w invocation =
  hasTerminated :: bool
  world :: 'w

text \<open>
  Values. Objects and functions are references, so equality of \<open>VObj\<close> is reference
  identity; \<open>VObj\<close> stands for an object without a callable \<^verbatim>\<open>then\<close>. A promise is a
  resumption: it is already fulfilled, already rejected, will never settle, or is pending
  with the rest of the asynchronous computation that the event loop still has to run
  (a state transformer that yields the next stage of the promise).
\<close>

datatype 'w jsval =
    VUndefined
  | VNull
  | VBool bool
  | VNum int
  | VStr string
  | VObj nat
  | VFunction nat
  | VPromise "'w promise"
and 'w promise =
    Fulfilled "'w jsval"
  | Rejected js_error
  | Forever
  | Pending "'w invocation \<Rightarrow> 'w promise \<times> 'w invocation"

text \<open>What a call does synchronously: it returns a value or throws.\<close>

datatype 'w outcome = Returned "'w jsval" | Raised js_error

type_synonym 'w settlement = "js_error + 'w jsval"

type_synonym 'w effect = "'w invocation \<Rightarrow> 'w outcome \<times> 'w invocation"

text \<open>\<^verbatim>\<open>typeof v\<close>.\<close>

fun typeof :: "'w jsval \<Rightarrow> string" where
  "typeof VUndefined = ''undefined''"
| "typeof VNull = ''object''"
| "typeof (VBool b) = ''boolean''"
| "typeof (VNum n) = ''number''"
| "typeof (VStr s) = ''string''"
| "typeof (VObj r) = ''object''"
| "typeof (VFunction r) = ''function''"
| "typeof (VPromise p) = ''object''"

text \<open>\<^verbatim>\<open>typeof v.then\<close> for an object \<open>v\<close>: only promises carry a \<^verbatim>\<open>then\<close> method.\<close>

fun typeofThen :: "'w jsval \<Rightarrow> string" where
  "typeofThen (VPromise p) = ''function''"
| "typeofThen v = ''undefined''"

text \<open>
  The event loop driving a promise until it settles: \<open>None\<close> when it never does.
  The last equation reads: run the pending stage \<open>t\<close> in \<open>s\<close>, then go on with the
  promise and the state it yields (lemma \<open>settle_Pending\<close> below).

  The stages of a pending promise run when the promise is driven. JavaScript runs them
  from its job queue, whether or not the promise is awaited. For a chain in which every
  pending promise is awaited exactly once (each middleware awaits the promise of the
  continuation it called) both give the same order of effects, and the statements about
  an awaited result below (\<open>awaitResult\<close>, \<open>settle\<close>) are about such chains. The
  dispatcher itself never drives a promise.
\<close>

primrec settle :: "'w promise \<Rightarrow> 'w invocation \<Rightarrow> 'w settlement option \<times> 'w invocation" where
  "settle (Fulfilled v) s = (Some (Inr v), s)"
| "settle (Rejected e) s = (Some (Inl e), s)"
| "settle Forever s = (None, s)"
| "settle (Pending t) s = (case map_prod settle id (t s) of (f, s') \<Rightarrow> f s')"

text \<open>
  \<^verbatim>\<open>p.then(onFulfilled, onRejected)\<close> with both reactions given as one function of the
  settlement, which is also what \<^verbatim>\<open>await p\<close> followed by the rest of an \<^verbatim>\<open>async\<close> body
  is. The reaction never runs in the same turn: the derived promise is pending even when
  \<open>p\<close> is settled already. The reaction yields the promise the derived one adopts.
\<close>

primrec promiseThen ::
  "'w promise \<Rightarrow> ('w settlement \<Rightarrow> 'w invocation \<Rightarrow> 'w promise \<times> 'w invocation) \<Rightarrow> 'w promise" where
  "promiseThen (Fulfilled v) k = Pending (k (Inr v))"
| "promiseThen (Rejected e) k = Pending (k (Inl e))"
| "promiseThen Forever k = Forever"
| "promiseThen (Pending t) k = Pending (\<lambda>s. map_prod (\<lambda>f. f k) id (map_prod promiseThen id (t s)))"

text \<open>
  What a promise is resolved with: \<^verbatim>\<open>Promise.resolve(v)\<close>, the \<^verbatim>\<open>return v\<close> of an
  \<^verbatim>\<open>async\<close> function or of a reaction (a promise is adopted, anything else fulfils),
  and a throw there (rejection).
\<close>

fun promiseResolve :: "'w jsval \<Rightarrow> 'w promise" where
  "promiseResolve (VPromise p) = p"
| "promiseResolve v = Fulfilled v"

fun resolveWith :: "'w outcome \<Rightarrow> 'w promise" where
  "resolveWith (Returned v) = promiseResolve v"
| "resolveWith (Raised e) = Rejected e"

text \<open>\<^verbatim>\<open>await expr\<close> at top level, as the tests do with the composed unit's result.\<close>

fun awaitResult :: "'w outcome \<times> 'w invocation \<Rightarrow> 'w settlement option \<times> 'w invocation" where
  "awaitResult (out, s) = settle (resolveWith out) s"

subsection \<open>The environment: middleware and continuations\<close>

text \<open>
  A middleware body is a tree of what it does, step by step: return a value, throw,
  read or update the world, call its \<^verbatim>\<open>next\<close> or its \<^verbatim>\<open>terminate\<close> argument and go on
  with the outcome of that call (a returned value or a caught exception), or finish by
  returning the promise derived from \<^verbatim>\<open>p.then(...)\<close> (equally: \<^verbatim>\<open>await p\<close> and the rest of
  an \<^verbatim>\<open>async\<close> body), whose reaction is again such a tree and runs later. A body has no
  other access to the invocation: it cannot read or write \<^verbatim>\<open>hasTerminated\<close>.
\<close>

datatype 'w prog =
    Return "'w jsval"
  | Throw js_error
  | Get "'w \<Rightarrow> 'w prog"
  | Upd "'w \<Rightarrow> 'w" "'w prog"
  | CallNext "'w outcome \<Rightarrow> 'w prog"
  | CallTerminate "'w outcome \<Rightarrow> 'w prog"
  | Await "'w promise" "'w settlement \<Rightarrow> 'w prog"

text \<open>
  A middleware function: its \<^verbatim>\<open>name\<close> property (the empty string for an anonymous
  function expression) and its body as a function of the request.
\<close>

record 'w middleware =
  name :: string
  body :: "'w jsval \<Rightarrow> 'w prog"

type_synonym 'w brigade = "'w middleware list"

text \<open>
  The outer continuations \<^verbatim>\<open>next\<close> and \<^verbatim>\<open>terminate\<close> are supplied by the caller of
  the composed unit. They are functions (the two \<^verbatim>\<open>invariant\<close> checks of
  \<^verbatim>\<open>composedMiddleware\<close> hold by type) that see the world only.
\<close>

type_synonym 'w continueMiddleware = "'w \<Rightarrow> 'w outcome \<times> 'w"

definition callContinue :: "'w continueMiddleware \<Rightarrow> 'w effect" where
  "callContinue f s = (case f (world s) of (out, w') \<Rightarrow> (out, s\<lparr>world := w'\<rparr>))"

text \<open>
  Running a body with the two closures it was given. The reaction of \<open>Await\<close> runs
  later, with the same closures, and settles the derived promise with its outcome.
\<close>

primrec exec :: "'w prog \<Rightarrow> 'w effect \<Rightarrow> 'w effect \<Rightarrow> 'w effect" where
  "exec (Return v) nx tm s = (Returned v, s)"
| "exec (Throw e) nx tm s = (Raised e, s)"
| "exec (Get k) nx tm s = exec (k (world s)) nx tm s"
| "exec (Upd f p) nx tm s = exec p nx tm (s\<lparr>world := f (world s)\<rparr>)"
| "exec (CallNext k) nx tm s = (case nx s of (out, s') \<Rightarrow> exec (k out) nx tm s')"
| "exec (CallTerminate k) nx tm s = (case tm s of (out, s') \<Rightarrow> exec (k out) nx tm s')"
| "exec (Await p k) nx tm s =
     (Returned (VPromise (promiseThen p
        (\<lambda>r s'. case exec (k r) nx tm s' of (out, s'') \<Rightarrow> (resolveWith out, s'')))), s)"

subsection \<open>locatedError\<close>

text \<open>The decimal text of an index, as the template literal \<^verbatim>\<open>#${i}\<close> prints it.\<close>

fun numberToString :: "nat \<Rightarrow> string" where
  "numberToString n =
     (if n < 10 then [''0123456789'' ! n]
      else numberToString (n div 10) @ [''0123456789'' ! (n mod 10)])"

definition intToString :: "int \<Rightarrow> string" where
  "intToString i = (if i < 0 then ''-'' @ numberToString (nat (- i)) else numberToString (nat i))"

definition quoted :: "string \<Rightarrow> string" where
  "quoted x = [CHR 0x27] @ x @ [CHR 0x27]"

text \<open>
  \<^verbatim>\<open>locatedError(brigade, i, message)\<close>: inside the brigade the message is prefixed
  with the position and the quoted \<^verbatim>\<open>name\<close> property; outside it is returned as it is.
\<close>

definition locatedError :: "'w brigade \<Rightarrow> int \<Rightarrow> string \<Rightarrow> string" where
  "locatedError brigade i message =
     (if i \<ge> 0 \<and> i < int (length brigade)
      then ''Composed middleware #'' @ intToString i @ '' '' @ quoted (name (brigade ! nat i))
             @ '' '' @ message
      else message)"

text \<open>
  The same function as the file \<^verbatim>\<open>src/index.js\<close> has it: outside the brigade the name is
  the literal \<^verbatim>\<open>XYZZY-UPDATE-ME\<close>, and the prefix is always there.
\<close>

definition locatedError_index :: "'w brigade \<Rightarrow> int \<Rightarrow> string \<Rightarrow> string" where
  "locatedError_index brigade i message =
     (let name' = (if i < 0 then ''XYZZY-UPDATE-ME''
                   else if i < int (length brigade) then name (brigade ! nat i)
                   else ''XYZZY-UPDATE-ME'')
      in ''Composed middleware #'' @ intToString i @ '' '' @ quoted name' @ '' '' @ message)"

definition nextAfterTermination :: string where
  "nextAfterTermination =
     ''has called its next function after the middleware brigade has been terminated by a prior ''
     @ ''call to either its next function or its terminate function''"

definition terminateAfterTermination :: string where
  "terminateAfterTermination =
     ''has called its terminate function after the middleware brigade has been terminated by a prior ''
     @ ''call to either its next function or its terminate function''"

definition notAPromise :: "'w jsval \<Rightarrow> string" where
  "notAPromise response =
     ''has returned a value of type '' @ quoted (typeof response) @ '' when a Promise was expected''"

subsection \<open>compose\<close>

text \<open>
  The test of the \<^verbatim>\<open>try\<close> block on the value obtained:
  \<^verbatim>\<open>typeof response === 'object' && response !== null && typeof response.then === 'function'\<close>.
\<close>

definition isPromiseLike :: "'w jsval \<Rightarrow> bool" where
  "isPromiseLike response =
     (typeof response = ''object'' \<and> response \<noteq> VNull \<and> typeofThen response = ''function'')"

text \<open>
  The rest of the \<^verbatim>\<open>try\<close> block of \<^verbatim>\<open>dispatchToMiddleware(i)\<close> once the call has been
  made, and its \<^verbatim>\<open>catch\<close>: a promise is returned as it is, any other value becomes a
  promise rejected with a TypeError, and a throw becomes a promise rejected with what was
  thrown.
\<close>

definition promiseOrReject :: "'w brigade \<Rightarrow> nat \<Rightarrow> 'w outcome \<times> 'w invocation \<Rightarrow> 'w outcome \<times> 'w invocation" where
  "promiseOrReject brigade i r =
     (case r of
        (Returned response, s') \<Rightarrow>
          if isPromiseLike response then (Returned response, s')
          else (Returned (VPromise (Rejected (TypeError
                  (locatedError brigade (int i) (notAPromise response))))), s')
      | (Raised err, s') \<Rightarrow> (Returned (VPromise (Rejected err)), s'))"

text \<open>\<^verbatim>\<open>dispatchTerminate\<close>, the closure of position \<open>i\<close>.\<close>

definition dispatchTerminate :: "'w brigade \<Rightarrow> 'w continueMiddleware \<Rightarrow> nat \<Rightarrow> 'w effect" where
  "dispatchTerminate brigade terminate i s =
     (if hasTerminated s
      then (Raised (Error (locatedError brigade (int i) terminateAfterTermination)), s)
      else callContinue terminate (s\<lparr>hasTerminated := True\<rparr>))"

text \<open>
  \<^verbatim>\<open>dispatchToMiddleware(i)\<close> and the closure \<^verbatim>\<open>dispatchNext\<close> of position \<open>i\<close>.
  The check of the flag is before the \<^verbatim>\<open>try\<close>, so its error is thrown to the caller.
\<close>

function dispatchToMiddleware ::
    "'w brigade \<Rightarrow> 'w jsval \<Rightarrow> 'w continueMiddleware \<Rightarrow> 'w continueMiddleware \<Rightarrow> nat \<Rightarrow> 'w effect"
  and dispatchNext ::
    "'w brigade \<Rightarrow> 'w jsval \<Rightarrow> 'w continueMiddleware \<Rightarrow> 'w continueMiddleware \<Rightarrow> nat \<Rightarrow> 'w effect"
where
  "dispatchToMiddleware brigade request next terminate i s =
     (if hasTerminated s
      then (Raised (Error (locatedError brigade (int i - 1) nextAfterTermination)), s)
      else promiseOrReject brigade i
             (if i < length brigade
              then exec (body (brigade ! i) request)
                     (\<lambda>s'. dispatchNext brigade request next terminate i s')
                     (\<lambda>s'. dispatchTerminate brigade terminate i s') s
              else callContinue next (s\<lparr>hasTerminated := True\<rparr>)))"
| "dispatchNext brigade request next terminate i s =
     dispatchToMiddleware brigade request next terminate (i + 1) s"
  by pat_completeness auto
termination
  by (relation "measure (\<lambda>x. case x of
        Inl (b, r, n, t, i, s) \<Rightarrow> 2 * (Suc (length b) - i)
      | Inr (b, r, n, t, i, s) \<Rightarrow> 2 * (length b - i) + 1)") auto

declare dispatchToMiddleware.simps [simp del]


text \<open>
  \<^verbatim>\<open>composedMiddleware(request, next, terminate)\<close>: a fresh flag, then dispatch at 0.
  \<^verbatim>\<open>compose(brigade)\<close> returns it; a brigade is a list of functions by type.
\<close>

definition composedMiddleware ::
    "'w brigade \<Rightarrow> 'w jsval \<Rightarrow> 'w continueMiddleware \<Rightarrow> 'w continueMiddleware \<Rightarrow> 'w effect" where
  "composedMiddleware brigade request next terminate s =
     dispatchToMiddleware brigade request next terminate 0 (s\<lparr>hasTerminated := False\<rparr>)"

definition compose ::
    "'w brigade \<Rightarrow> 'w jsval \<Rightarrow> 'w continueMiddleware \<Rightarrow> 'w continueMiddleware \<Rightarrow> 'w effect" where
  "compose brigade = composedMiddleware brigade"

subsection \<open>callMiddleware\<close>

definition unexpectedResponse :: string where
  "unexpectedResponse =
     ''Middleware brigade terminated with an unexpected response value indicating ''
     @ ''that a middleware function failed to call next or terminate, or failed to ''
     @ ''incorporate the resulting value into its own return value''"

definition undefinedResult :: string where
  "undefinedResult = ''Middleware brigade result cannot be undefined''"

text \<open>
  The reaction passed to \<^verbatim>\<open>then\<close>. \<^verbatim>\<open>!==\<close> is inequality of values: references for
  objects, contents for primitives. A rejection passes through a one-argument \<^verbatim>\<open>then\<close>.
\<close>

definition checkResult :: "'w jsval \<Rightarrow> 'w settlement \<Rightarrow> 'w invocation \<Rightarrow> 'w promise \<times> 'w invocation" where
  "checkResult response r s =
     (case r of
        Inl e \<Rightarrow> (Rejected e, s)
      | Inr result \<Rightarrow>
          if response \<noteq> VUndefined \<and> result \<noteq> response
          then (Rejected (Error unexpectedResponse), s)
          else if result = VUndefined
          then (Rejected (Error undefinedResult), s)
          else (promiseResolve result, s))"

text \<open>The continuation \<^verbatim>\<open>() => Promise.resolve(v)\<close>.\<close>

definition resolvesTo :: "'w jsval \<Rightarrow> 'w continueMiddleware" where
  "resolvesTo v = (\<lambda>w. (Returned (VPromise (promiseResolve v)), w))"

text \<open>
  \<^verbatim>\<open>callMiddleware(middleware, request, response)\<close>; an omitted response is
  \<open>VUndefined\<close>. The middleware is any function of the middleware signature (by type, so
  the first \<^verbatim>\<open>invariant\<close> holds), for instance a composed unit. Calling \<^verbatim>\<open>then\<close> on a
  returned value that has none is the engine's TypeError.
\<close>

definition callMiddleware ::
    "('w jsval \<Rightarrow> 'w continueMiddleware \<Rightarrow> 'w continueMiddleware \<Rightarrow> 'w effect)
      \<Rightarrow> 'w jsval \<Rightarrow> 'w jsval \<Rightarrow> 'w effect" where
  "callMiddleware middleware request response s =
     (if \<not> (typeof request = ''object'' \<and> request \<noteq> VNull)
      then (Raised (InvariantViolation ''request must be an object''), s)
      else if \<not> (response = VUndefined \<or> (typeof response = ''object'' \<and> response \<noteq> VNull))
      then (Raised (InvariantViolation ''response must be an object if specified''), s)
      else let continueFn = resolvesTo response
           in case middleware request continueFn continueFn s of
                (Raised e, s') \<Rightarrow> (Raised e, s')
              | (Returned (VPromise p), s') \<Rightarrow>
                  (Returned (VPromise (promiseThen p (checkResult response))), s')
              | (Returned v, s') \<Rightarrow> (Raised EngineTypeError, s'))"

subsection \<open>Passing a failure on\<close>

text \<open>
  A call fails with \<open>e\<close> when, from whatever state with the flag false it is made,
  awaiting its outcome gives \<open>e\<close>: it throws \<open>e\<close>, or it returns a promise that
  rejects with \<open>e\<close>. A middleware body passes a failure on when, whatever its two
  continuations are, a \<^verbatim>\<open>next\<close> that fails with \<open>e\<close> makes the body fail with \<open>e\<close>:
  it returns what \<^verbatim>\<open>next()\<close> returned, or it is an \<^verbatim>\<open>async\<close> function that returns or
  awaits it and does not catch.
\<close>

definition failsWith :: "js_error \<Rightarrow> 'w effect \<Rightarrow> bool" where
  "failsWith e f = (\<forall>s. \<not> hasTerminated s \<longrightarrow> fst (awaitResult (f s)) = Some (Inl e))"

definition passesOn :: "'w prog \<Rightarrow> bool" where
  "passesOn b = (\<forall>nx tm e. failsWith e nx \<longrightarrow> failsWith e (exec b nx tm))"

subsection \<open>Middleware used in examples\<close>

text \<open>\<^verbatim>\<open>(request, next) => next()\<close> and \<^verbatim>\<open>(request, next, terminate) => terminate()\<close>.\<close>

definition returnsNext :: "'w prog" where
  "returnsNext = CallNext (\<lambda>out. case out of Returned v \<Rightarrow> Return v | Raised e \<Rightarrow> Throw e)"

definition returnsTerminate :: "'w prog" where
  "returnsTerminate = CallTerminate (\<lambda>out. case out of Returned v \<Rightarrow> Return v | Raised e \<Rightarrow> Throw e)"

text \<open>A named middleware that returns \<^verbatim>\<open>undefined\<close> at once.\<close>

definition badDog :: "unit middleware" where
  "badDog = \<lparr>name = ''badDog'', body = (\<lambda>request. Return VUndefined)\<rparr>"

text \<open>
  The middleware of the test that expects a TypeError: the anonymous
  \<^verbatim>\<open>() => notAPromise\<close> with \<^verbatim>\<open>notAPromise = 0\<close>.
\<close>

definition anonymousZero :: "unit middleware" where
  "anonymousZero = \<lparr>name = '''', body = (\<lambda>request. Return (VNum 0))\<rparr>"

text \<open>\<^verbatim>\<open>function shortcuts(request, next, terminate) { return terminate(); }\<close>\<close>

definition shortcuts :: "unit middleware" where
  "shortcuts = \<lparr>name = ''shortcuts'', body = (\<lambda>request. returnsTerminate)\<rparr>"

text \<open>
  Two middleware over a world that counts calls: \<^verbatim>\<open>lazy\<close> counts its own invocations
  and returns a resolved promise without calling a continuation;
  \<^verbatim>\<open>function nextTwice(request, next) { next(); return next(); }\<close>.
\<close>

definition lazy :: "nat middleware" where
  "lazy = \<lparr>name = ''lazy'', body = (\<lambda>request. Upd Suc (Return (VPromise (Fulfilled (VObj 0)))))\<rparr>"

definition nextTwice :: "'w middleware" where
  "nextTwice = \<lparr>name = ''nextTwice'', body = (\<lambda>request.
      CallNext (\<lambda>first. case first of Raised e \<Rightarrow> Throw e | Returned _ \<Rightarrow> returnsNext))\<rparr>"

text \<open>
  \<^verbatim>\<open>function forwards(request, next) { return next(); }\<close>,
  \<^verbatim>\<open>function throws() { throw new Error('test'); }\<close> and
  \<^verbatim>\<open>async function ignores() { }\<close>, which calls neither continuation.
\<close>

definition forwards :: "'w middleware" where
  "forwards = \<lparr>name = ''forwards'', body = (\<lambda>request. returnsNext)\<rparr>"


definition ignores :: "'w middleware" where
  "ignores = \<lparr>name = ''ignores'', body = (\<lambda>request. Return (VPromise (Fulfilled VUndefined)))\<rparr>"

text \<open>
  Three more middleware of the tests:
  \<^verbatim>\<open>async function badDog(request, next, terminate) { next(); return terminate(); }\<close>,
  \<^verbatim>\<open>async function badDog(request, next, terminate) { await terminate(); await next(); }\<close>
  and the anonymous \<^verbatim>\<open>async (request, next) => { next(); }\<close>.
\<close>

definition nextThenTerminate :: "'w middleware" where
  "nextThenTerminate = \<lparr>name = ''badDog'', body = (\<lambda>request.
      CallNext (\<lambda>first. case first of
          Raised e \<Rightarrow> Return (VPromise (Rejected e))
        | Returned _ \<Rightarrow> CallTerminate (\<lambda>out. Return (VPromise (resolveWith out)))))\<rparr>"

definition terminateThenNext :: "'w middleware" where
  "terminateThenNext = \<lparr>name = ''badDog'', body = (\<lambda>request.
      CallTerminate (\<lambda>first. case first of
          Raised e \<Rightarrow> Return (VPromise (Rejected e))
        | Returned v \<Rightarrow>
            Await (promiseResolve v) (\<lambda>r. case r of
                Inl e \<Rightarrow> Throw e
              | Inr _ \<Rightarrow>
                  CallNext (\<lambda>second. case second of
                      Raised e \<Rightarrow> Throw e
                    | Returned v' \<Rightarrow>
                        Await (promiseResolve v') (\<lambda>r'. case r' of
                            Inl e \<Rightarrow> Throw e
                          | Inr _ \<Rightarrow> Return VUndefined)))))\<rparr>"

definition dropsNext :: "'w middleware" where
  "dropsNext = \<lparr>name = '''', body = (\<lambda>request.
      CallNext (\<lambda>out. case out of
          Raised e \<Rightarrow> Return (VPromise (Rejected e))
        | Returned _ \<Rightarrow> Return (VPromise (Fulfilled VUndefined))))\<rparr>"



text \<open>
  The deep brigade of the tests, for any length: the middleware at position \<open>i\<close> is
  \<^verbatim>\<open>async (request, next) => { request.receivedCalls.push(before_i);
  const result = await next(); request.receivedCalls.push(after_i); return result; }\<close>.
  The world is the \<^verbatim>\<open>receivedCalls\<close> array. In an \<^verbatim>\<open>async\<close> function a throw of
  \<^verbatim>\<open>next()\<close> rejects the returned promise, and so does a rejection of the awaited one.
\<close>

datatype mark = Before nat | After nat

definition deep :: "nat \<Rightarrow> (mark list) middleware" where
  "deep i = \<lparr>name = '''', body = (\<lambda>request.
      Upd (\<lambda>receivedCalls. receivedCalls @ [Before i])
        (CallNext (\<lambda>out. case out of
            Raised e \<Rightarrow> Return (VPromise (Rejected e))
          | Returned v \<Rightarrow>
              Await (promiseResolve v) (\<lambda>r. case r of
                  Inl e \<Rightarrow> Throw e
                | Inr result \<Rightarrow>
                    Upd (\<lambda>receivedCalls. receivedCalls @ [After i]) (Return result)))))\<rparr>"

definition deepBrigade :: "nat \<Rightarrow> (mark list) brigade" where
  "deepBrigade n = map deep [0..<n]"

section \<open>Properties\<close>

lemma settle_Pending:
  "settle (Pending t) s = (case t s of (p', s') \<Rightarrow> settle p' s')"
  by (cases "t s") simp

subsection \<open>Unfolding the dispatcher\<close>

lemma dispatch_terminated:
  "hasTerminated s \<Longrightarrow>
     dispatchToMiddleware brigade request next terminate i s =
       (Raised (Error (locatedError brigade (int i - 1) nextAfterTermination)), s)"
  by (subst dispatchToMiddleware.simps) simp

lemma dispatch_past_end:
  "\<not> hasTerminated s \<Longrightarrow> length brigade \<le> i \<Longrightarrow>
     dispatchToMiddleware brigade request next terminate i s =
       promiseOrReject brigade i (callContinue next (s\<lparr>hasTerminated := True\<rparr>))"
  by (subst dispatchToMiddleware.simps) simp

lemma dispatch_within:
  "\<not> hasTerminated s \<Longrightarrow> i < length brigade \<Longrightarrow>
     dispatchToMiddleware brigade request next terminate i s =
       promiseOrReject brigade i
         (exec (body (brigade ! i) request)
            (dispatchNext brigade request next terminate i)
            (dispatchTerminate brigade terminate i) s)"
  by (subst dispatchToMiddleware.simps) simp

lemma locatedError_within:
  "i < length brigade \<Longrightarrow>
     locatedError brigade (int i) message =
       ''Composed middleware #'' @ numberToString i @ '' '' @ quoted (name (brigade ! i)) @ '' '' @ message"
  by (simp add: locatedError_def intToString_def)


lemma promiseOrReject_promise:
  "promiseOrReject brigade i (Returned (VPromise p), s) = (Returned (VPromise p), s)"
  by (simp add: promiseOrReject_def isPromiseLike_def)

lemma promiseOrReject_raised:
  "promiseOrReject brigade i (Raised e, s) = (Returned (VPromise (Rejected e)), s)"
  by (simp add: promiseOrReject_def)



lemma callContinue_flag: "hasTerminated (snd (callContinue f s)) = hasTerminated s"
  by (simp add: callContinue_def split: prod.splits)

lemma promiseOrReject_flag:
  "hasTerminated (snd (promiseOrReject brigade j r)) = hasTerminated (snd r)"
  by (cases r; cases "fst r") (auto simp add: promiseOrReject_def)

lemma promiseOrReject_returns:
  "\<exists>v. fst (promiseOrReject brigade j r) = Returned v"
  by (cases r; cases "fst r") (auto simp add: promiseOrReject_def)

subsection \<open>Entering dispatch after termination\<close>

text \<open>
  Claim C5. Dispatch is entered at a position \<open>i\<close> with the flag already true only
  through the \<^verbatim>\<open>next\<close> closure of position \<open>i - 1\<close>, so \<open>0 < i \<le> length brigade\<close>.
  There it throws an error whose message names position \<open>i - 1\<close> and the middleware at
  that position and says that its next function was called after the brigade had been
  terminated; the state is left as it was.
\<close>

theorem dispatch_entry_after_termination:
  "0 < i \<Longrightarrow> i \<le> length brigade \<Longrightarrow> hasTerminated s \<Longrightarrow>
     dispatchToMiddleware brigade request next terminate i s =
       (Raised (Error (''Composed middleware #'' @ numberToString (i - 1) @ '' ''
          @ quoted (name (brigade ! (i - 1))) @ '' ''
          @ ''has called its next function after the middleware brigade has been terminated by a prior ''
          @ ''call to either its next function or its terminate function'')), s)"
proof -
  assume pos: "0 < i" and le: "i \<le> length brigade" and t: "hasTerminated s"
  from pos have idx: "int i - 1 = int (i - 1)" by simp
  from pos le have "i - 1 < length brigade" by simp
  then show ?thesis
    using t by (simp add: dispatch_terminated idx locatedError_within nextAfterTermination_def del: of_nat_diff)
qed

theorem dispatch_entry_after_termination_witness:
  "(0::nat) < 1 \<and> 1 \<le> length [badDog] \<and> hasTerminated \<lparr>hasTerminated = True, world = ()\<rparr> \<and>
   dispatchToMiddleware [badDog] VNull (resolvesTo VNull) (resolvesTo VNull) 1
       \<lparr>hasTerminated = True, world = ()\<rparr> =
     (Raised (Error (''Composed middleware #0 '' @ quoted ''badDog''
        @ '' has called its next function after the middleware brigade has been terminated by a prior ''
        @ ''call to either its next function or its terminate function'')),
      \<lparr>hasTerminated = True, world = ()\<rparr>)"
  using dispatch_entry_after_termination
    [of 1 "[badDog]" "\<lparr>hasTerminated = True, world = ()\<rparr>" VNull "resolvesTo VNull" "resolvesTo VNull"]
  by (simp add: badDog_def)

subsection \<open>The empty brigade\<close>

text \<open>
  Claim C3. For every request and every pair of continuations, the unit composed from
  the empty brigade returns the very promise that calling \<^verbatim>\<open>next\<close> produced, with the
  effects of that call and nothing else, so awaiting it settles exactly as that promise
  does; \<^verbatim>\<open>terminate\<close> is never called: replacing it by any other function changes
  neither the result nor the state.
\<close>

theorem empty_brigade_returns_next:
  "next (world s) = (Returned (VPromise p), w') \<Longrightarrow>
     composedMiddleware [] request next terminate s =
       (Returned (VPromise p), \<lparr>hasTerminated = True, world = w'\<rparr>)
     \<and> awaitResult (composedMiddleware [] request next terminate s) =
       settle p \<lparr>hasTerminated = True, world = w'\<rparr>
     \<and> composedMiddleware [] request next terminate s =
       composedMiddleware [] request next terminate' s"
proof -
  assume n: "next (world s) = (Returned (VPromise p), w')"
  have "composedMiddleware [] request next t s = (Returned (VPromise p), \<lparr>hasTerminated = True, world = w'\<rparr>)"
    for t
    using n by (simp add: composedMiddleware_def dispatch_past_end callContinue_def promiseOrReject_promise)
  then show ?thesis by simp
qed

theorem empty_brigade_returns_next_witness:
  "resolvesTo (VObj 7) (world \<lparr>hasTerminated = False, world = ()\<rparr>) =
     (Returned (VPromise (Fulfilled (VObj 7))), ())
   \<and> composedMiddleware [] (VObj 1) (resolvesTo (VObj 7)) (resolvesTo (VObj 8))
        \<lparr>hasTerminated = False, world = ()\<rparr> =
       (Returned (VPromise (Fulfilled (VObj 7))), \<lparr>hasTerminated = True, world = ()\<rparr>)
   \<and> awaitResult (composedMiddleware [] (VObj 1) (resolvesTo (VObj 7)) (resolvesTo (VObj 8))
        \<lparr>hasTerminated = False, world = ()\<rparr>) =
       (Some (Inr (VObj 7)), \<lparr>hasTerminated = True, world = ()\<rparr>)"
  using empty_brigade_returns_next
    [of "resolvesTo (VObj 7)" "\<lparr>hasTerminated = False, world = ()\<rparr>" "Fulfilled (VObj 7)" "()"
        "VObj 1" "resolvesTo (VObj 8)"]
  by (simp add: resolvesTo_def)

subsection \<open>The shortcut closure\<close>

text \<open>
  Claim C4. For every position \<open>i\<close> of the brigade, the \<^verbatim>\<open>terminate\<close> closure bound to
  \<open>i\<close>, called when the flag is already true, throws an error that names position \<open>i\<close>
  and its middleware and says that its terminate function was called after the brigade
  had been terminated. Otherwise it sets the flag at once, in the same synchronous step
  in which it calls the caller's \<^verbatim>\<open>terminate\<close> (no promise has been awaited: the promise
  comes back unsettled and the flag is already true), and returns what that call
  returned; a middleware at \<open>i\<close> that returns this value makes dispatch at \<open>i\<close> return
  that very promise.
\<close>

theorem dispatchTerminate_protocol:
  "i < length brigade \<Longrightarrow>
     (hasTerminated s \<longrightarrow>
        dispatchTerminate brigade terminate i s =
          (Raised (Error (''Composed middleware #'' @ numberToString i @ '' ''
             @ quoted (name (brigade ! i)) @ '' ''
             @ ''has called its terminate function after the middleware brigade has been terminated by a prior ''
             @ ''call to either its next function or its terminate function'')), s))
   \<and> (\<not> hasTerminated s \<longrightarrow>
        dispatchTerminate brigade terminate i s =
          (fst (terminate (world s)), \<lparr>hasTerminated = True, world = snd (terminate (world s))\<rparr>))
   \<and> (\<not> hasTerminated s \<and> body (brigade ! i) request = returnsTerminate
        \<and> terminate (world s) = (Returned (VPromise p), w') \<longrightarrow>
        dispatchToMiddleware brigade request next terminate i s =
          (Returned (VPromise p), \<lparr>hasTerminated = True, world = w'\<rparr>))"
  by (auto simp add: dispatchTerminate_def locatedError_within terminateAfterTermination_def
        callContinue_def dispatch_within returnsTerminate_def promiseOrReject_promise split: prod.splits)

theorem dispatchTerminate_protocol_witness:
  "0 < length [shortcuts]
   \<and> hasTerminated \<lparr>hasTerminated = True, world = ()\<rparr>
   \<and> dispatchTerminate [shortcuts] (resolvesTo (VObj 5)) 0 \<lparr>hasTerminated = True, world = ()\<rparr> =
       (Raised (Error (''Composed middleware #0 '' @ quoted ''shortcuts''
          @ '' has called its terminate function after the middleware brigade has been terminated by a prior ''
          @ ''call to either its next function or its terminate function'')),
        \<lparr>hasTerminated = True, world = ()\<rparr>)
   \<and> \<not> hasTerminated \<lparr>hasTerminated = False, world = ()\<rparr>
   \<and> dispatchTerminate [shortcuts] (resolvesTo (VObj 5)) 0 \<lparr>hasTerminated = False, world = ()\<rparr> =
       (Returned (VPromise (Fulfilled (VObj 5))), \<lparr>hasTerminated = True, world = ()\<rparr>)
   \<and> body ([shortcuts] ! 0) VNull = returnsTerminate
   \<and> resolvesTo (VObj 5) (world \<lparr>hasTerminated = False, world = ()\<rparr>) =
       (Returned (VPromise (Fulfilled (VObj 5))), ())
   \<and> dispatchToMiddleware [shortcuts] VNull (resolvesTo VNull) (resolvesTo (VObj 5)) 0
        \<lparr>hasTerminated = False, world = ()\<rparr> =
       (Returned (VPromise (Fulfilled (VObj 5))), \<lparr>hasTerminated = True, world = ()\<rparr>)"
  using dispatchTerminate_protocol
      [of 0 "[shortcuts]" "\<lparr>hasTerminated = True, world = ()\<rparr>" "resolvesTo (VObj 5)" VNull
          "Fulfilled (VObj 5)" "()" "resolvesTo VNull"]
    dispatchTerminate_protocol
      [of 0 "[shortcuts]" "\<lparr>hasTerminated = False, world = ()\<rparr>" "resolvesTo (VObj 5)" VNull
          "Fulfilled (VObj 5)" "()" "resolvesTo VNull"]
  by (simp add: shortcuts_def resolvesTo_def)

subsection \<open>A value that is not a promise\<close>




subsection \<open>The name in a located message\<close>

text \<open>
  Claim C9 as stated fails: for the anonymous middleware of the repository's own test
  (its \<^verbatim>\<open>name\<close> property is the empty string) the message has two quotes with nothing
  between them, in both versions of \<^verbatim>\<open>locatedError\<close>; no placeholder is put there.
\<close>

theorem unnamed_middleware_counterexample:
  "composedMiddleware [anonymousZero] (VObj 0) (resolvesTo VNull) (resolvesTo VNull)
       \<lparr>hasTerminated = False, world = ()\<rparr> =
     (Returned (VPromise (Rejected (TypeError
        (''Composed middleware #0 '' @ [CHR 0x27, CHR 0x27]
         @ '' has returned a value of type 'number' when a Promise was expected'')))),
      \<lparr>hasTerminated = False, world = ()\<rparr>)
   \<and> locatedError_index [anonymousZero] 0 ''was here'' =
       ''Composed middleware #0 '' @ [CHR 0x27, CHR 0x27] @ '' was here''"
  by (simp add: composedMiddleware_def dispatch_within anonymousZero_def promiseOrReject_def
        isPromiseLike_def locatedError_def locatedError_index_def notAPromise_def quoted_def
        intToString_def)

text \<open>
  Claim C9, amended. In a message for a position inside the brigade both versions of
  \<^verbatim>\<open>locatedError\<close> quote the \<^verbatim>\<open>name\<close> property of the middleware as it is, also when
  it is empty. For a position outside the brigade there is no middleware to name: the
  current version returns the message alone, and the version of \<^verbatim>\<open>src/index.js\<close> puts
  the placeholder \<^verbatim>\<open>XYZZY-UPDATE-ME\<close>.
\<close>

theorem locatedError_name:
  "(0 \<le> i \<and> i < int (length brigade) \<longrightarrow>
      locatedError brigade i message =
        ''Composed middleware #'' @ intToString i @ '' '' @ quoted (name (brigade ! nat i))
          @ '' '' @ message
      \<and> locatedError_index brigade i message = locatedError brigade i message)
   \<and> (\<not> (0 \<le> i \<and> i < int (length brigade)) \<longrightarrow>
      locatedError brigade i message = message
      \<and> locatedError_index brigade i message =
        ''Composed middleware #'' @ intToString i @ '' '' @ quoted ''XYZZY-UPDATE-ME''
          @ '' '' @ message)"
  by (auto simp add: locatedError_def locatedError_index_def)

theorem locatedError_name_witness:
  "(0::int) \<le> 1 \<and> (1::int) < int (length [anonymousZero, shortcuts])
   \<and> locatedError [anonymousZero, shortcuts] 1 ''failed'' =
       ''Composed middleware #1 '' @ quoted ''shortcuts'' @ '' failed''
   \<and> locatedError_index [anonymousZero, shortcuts] 1 ''failed'' =
       ''Composed middleware #1 '' @ quoted ''shortcuts'' @ '' failed''
   \<and> \<not> ((0::int) \<le> 2 \<and> (2::int) < int (length [anonymousZero, shortcuts]))
   \<and> locatedError [anonymousZero, shortcuts] 2 ''failed'' = ''failed''
   \<and> locatedError_index [anonymousZero, shortcuts] 2 ''failed'' =
       ''Composed middleware #2 '' @ quoted ''XYZZY-UPDATE-ME'' @ '' failed''"
  using locatedError_name [of 1 "[anonymousZero, shortcuts]" "''failed''"]
    locatedError_name [of 2 "[anonymousZero, shortcuts]" "''failed''"]
  by (simp add: shortcuts_def intToString_def)

subsection \<open>A repeated call of next\<close>

text \<open>
  Claim C10. A middleware at position \<open>i\<close> calls its \<^verbatim>\<open>next\<close> and, when that call has
  returned with the flag still false (the chain it started has neither reached the end
  of the brigade nor taken a shortcut, so there is a position \<open>i + 1\<close>), calls it
  again, possibly after changing the world. The second call raises no protocol violation:
  \<^verbatim>\<open>dispatchNext\<close> is only \<^verbatim>\<open>dispatchToMiddleware(i + 1)\<close>, whose entry check passes,
  so the middleware at \<open>i + 1\<close> is invoked once more and a value is returned.
\<close>

theorem repeated_next_not_detected:
  "dispatchNext brigade request next terminate i s = (r1, s1) \<Longrightarrow> \<not> hasTerminated s1 \<Longrightarrow>
     i + 1 < length brigade
     \<and> dispatchNext brigade request next terminate i (s1\<lparr>world := w\<rparr>) =
       promiseOrReject brigade (i + 1)
         (exec (body (brigade ! (i + 1)) request)
            (dispatchNext brigade request next terminate (i + 1))
            (dispatchTerminate brigade terminate (i + 1)) (s1\<lparr>world := w\<rparr>))
     \<and> (\<exists>v. fst (dispatchNext brigade request next terminate i (s1\<lparr>world := w\<rparr>)) = Returned v)"
proof -
  assume first: "dispatchNext brigade request next terminate i s = (r1, s1)"
    and still: "\<not> hasTerminated s1"
  have started: "\<not> hasTerminated s"
  proof
    assume "hasTerminated s"
    then have "dispatchNext brigade request next terminate i s =
        (Raised (Error (locatedError brigade (int i) nextAfterTermination)), s)"
      by (simp add: dispatch_terminated)
    with first still \<open>hasTerminated s\<close> show False by simp
  qed
  have inside: "i + 1 < length brigade"
  proof (rule ccontr)
    assume "\<not> i + 1 < length brigade"
    then have "dispatchNext brigade request next terminate i s =
        promiseOrReject brigade (i + 1) (callContinue next (s\<lparr>hasTerminated := True\<rparr>))"
      using started by (simp add: dispatch_past_end)
    then have "hasTerminated (snd (dispatchNext brigade request next terminate i s))"
      by (simp add: promiseOrReject_flag callContinue_flag)
    with first still show False by simp
  qed
  have again: "dispatchNext brigade request next terminate i (s1\<lparr>world := w\<rparr>) =
       promiseOrReject brigade (i + 1)
         (exec (body (brigade ! (i + 1)) request)
            (dispatchNext brigade request next terminate (i + 1))
            (dispatchTerminate brigade terminate (i + 1)) (s1\<lparr>world := w\<rparr>))"
    using inside still by (simp add: dispatch_within)
  from inside again promiseOrReject_returns [of brigade "i + 1"] show ?thesis
    by simp
qed

theorem repeated_next_not_detected_witness:
  "\<not> hasTerminated \<lparr>hasTerminated = False, world = 1::nat\<rparr>
   \<and> dispatchNext [nextTwice, lazy] (VObj 1) (resolvesTo VNull) (resolvesTo VNull) 0
        \<lparr>hasTerminated = False, world = 0\<rparr> =
      (Returned (VPromise (Fulfilled (VObj 0))), \<lparr>hasTerminated = False, world = 1\<rparr>)
   \<and> dispatchNext [nextTwice, lazy] (VObj 1) (resolvesTo VNull) (resolvesTo VNull) 0
        \<lparr>hasTerminated = False, world = 1\<rparr> =
      (Returned (VPromise (Fulfilled (VObj 0))), \<lparr>hasTerminated = False, world = 2\<rparr>)
   \<and> composedMiddleware [nextTwice, lazy] (VObj 1) (resolvesTo VNull) (resolvesTo VNull)
        \<lparr>hasTerminated = False, world = 0\<rparr> =
      (Returned (VPromise (Fulfilled (VObj 0))), \<lparr>hasTerminated = False, world = 2\<rparr>)"
proof -
  let ?s = "\<lparr>hasTerminated = False, world = 0::nat\<rparr>"
  let ?s1 = "\<lparr>hasTerminated = False, world = 1::nat\<rparr>"
  have first: "dispatchNext [nextTwice, lazy] (VObj 1) (resolvesTo VNull) (resolvesTo VNull) 0 ?s =
      (Returned (VPromise (Fulfilled (VObj 0))), ?s1)"
    by (simp add: dispatch_within lazy_def promiseOrReject_promise)
  have "dispatchNext [nextTwice, lazy] (VObj 1) (resolvesTo VNull) (resolvesTo VNull) 0 (?s1\<lparr>world := 1\<rparr>) =
       promiseOrReject [nextTwice, lazy] (0 + 1)
         (exec (body ([nextTwice, lazy] ! (0 + 1)) (VObj 1))
            (dispatchNext [nextTwice, lazy] (VObj 1) (resolvesTo VNull) (resolvesTo VNull) (0 + 1))
            (dispatchTerminate [nextTwice, lazy] (resolvesTo VNull) (0 + 1)) (?s1\<lparr>world := 1\<rparr>))"
    using repeated_next_not_detected [of "[nextTwice, lazy]" "VObj 1" "resolvesTo VNull" "resolvesTo VNull" 0 ?s
        "Returned (VPromise (Fulfilled (VObj 0)))" ?s1 1] first
    by simp
  then have second: "dispatchNext [nextTwice, lazy] (VObj 1) (resolvesTo VNull) (resolvesTo VNull) 0 ?s1 =
      (Returned (VPromise (Fulfilled (VObj 0))), \<lparr>hasTerminated = False, world = 2\<rparr>)"
    by (simp add: lazy_def promiseOrReject_promise)
  have whole: "composedMiddleware [nextTwice, lazy] (VObj 1) (resolvesTo VNull) (resolvesTo VNull) ?s =
      (Returned (VPromise (Fulfilled (VObj 0))), \<lparr>hasTerminated = False, world = 2\<rparr>)"
    by (simp add: composedMiddleware_def dispatch_within nextTwice_def returnsNext_def lazy_def
          promiseOrReject_promise)
  from first second whole show ?thesis by simp
qed

subsection \<open>What dispatch returns\<close>




lemma exec_returnsNext: "exec returnsNext nx tm s = nx s"
proof (cases "nx s")
  case (Pair out s')
  then show ?thesis by (cases out) (simp_all add: returnsNext_def)
qed


subsection \<open>Settling promises\<close>

lemma promise_induct [case_names Fulfilled Rejected Forever Pending]:
  assumes "\<And>v. P (Fulfilled v)" and "\<And>e. P (Rejected e)" and "P Forever"
    and "\<And>t. (\<And>s. P (fst (t s))) \<Longrightarrow> P (Pending t)"
  shows "P p"
proof (rule promise.induct [where ?P1.0 = "\<lambda>_. True" and ?P2.0 = P])
  fix t :: "'a invocation \<Rightarrow> 'a promise \<times> 'a invocation"
  assume ih: "\<And>xa xaa. xa \<in> range t \<Longrightarrow> xaa \<in> Basic_BNFs.fsts xa \<Longrightarrow> P xaa"
  have "P (fst (t s))" for s
    by (rule ih [of "t s"]) (auto simp add: fsts.simps intro: prod.collapse [symmetric])
  then show "P (Pending t)" by (rule assms(4))
qed (simp_all add: assms)

lemma settle_promiseThen:
  "settle (promiseThen p k) s =
     (case settle p s of
        (None, s') \<Rightarrow> (None, s')
      | (Some r, s') \<Rightarrow> (case k r s' of (q, s'') \<Rightarrow> settle q s''))"
proof (induction p arbitrary: s rule: promise_induct)
  case (Pending t)
  obtain p' s' where ts: "t s = (p', s')" by (cases "t s")
  from Pending [of s] ts show ?case
    by (simp add: settle_Pending)
qed (simp_all add: settle_Pending split: prod.splits)

lemma promiseResolve_plain: "\<not> isPromiseLike v \<Longrightarrow> promiseResolve v = Fulfilled v"
  by (cases v) (simp_all add: isPromiseLike_def)

subsection \<open>callMiddleware\<close>

text \<open>
  Claim C8. For every call of \<^verbatim>\<open>callMiddleware\<close> that passes the argument checks and
  whose middleware returns a promise that is fulfilled with \<open>result\<close> (a fulfilment value
  is never itself a promise): awaiting the call rejects with the unexpected-response
  error if a response was supplied and \<open>result\<close> is not that very response; it rejects
  with the cannot-be-undefined error if no response was supplied and \<open>result\<close> is
  \<^verbatim>\<open>undefined\<close>; otherwise it resolves to \<open>result\<close>.
\<close>

theorem callMiddleware_checks:
  "typeof request = ''object'' \<Longrightarrow> request \<noteq> VNull \<Longrightarrow>
   response = VUndefined \<or> (typeof response = ''object'' \<and> response \<noteq> VNull) \<Longrightarrow>
   middleware request (resolvesTo response) (resolvesTo response) s = (Returned (VPromise p), s1) \<Longrightarrow>
   settle p s1 = (Some (Inr result), s2) \<Longrightarrow> \<not> isPromiseLike result \<Longrightarrow>
     awaitResult (callMiddleware middleware request response s) =
       (if response \<noteq> VUndefined \<and> result \<noteq> response then Some (Inl (Error unexpectedResponse))
        else if result = VUndefined then Some (Inl (Error undefinedResult))
        else Some (Inr result), s2)"
proof -
  assume req: "typeof request = ''object''" "request \<noteq> VNull"
    and resp: "response = VUndefined \<or> (typeof response = ''object'' \<and> response \<noteq> VNull)"
    and call: "middleware request (resolvesTo response) (resolvesTo response) s = (Returned (VPromise p), s1)"
    and settled: "settle p s1 = (Some (Inr result), s2)"
    and plain: "\<not> isPromiseLike result"
  have "callMiddleware middleware request response s =
      (Returned (VPromise (promiseThen p (checkResult response))), s1)"
    using req resp call by (simp add: callMiddleware_def Let_def)
  moreover have "settle (promiseThen p (checkResult response)) s1 =
      (case checkResult response (Inr result) s2 of (q, s'') \<Rightarrow> settle q s'')"
    using settled by (simp add: settle_promiseThen)
  moreover have "promiseResolve result = Fulfilled result"
    using plain by (rule promiseResolve_plain)
  ultimately show ?thesis
    by (auto simp add: checkResult_def)
qed

theorem callMiddleware_checks_witness:
  "typeof (VObj 0 :: unit jsval) = ''object'' \<and> (VObj 0 :: unit jsval) \<noteq> VNull
   \<and> awaitResult (callMiddleware (compose [forwards]) (VObj 0) (VObj 1) \<lparr>hasTerminated = False, world = ()\<rparr>) =
       (Some (Inr (VObj 1)), \<lparr>hasTerminated = True, world = ()\<rparr>)
   \<and> awaitResult (callMiddleware (compose [ignores]) (VObj 0) (VObj 1) \<lparr>hasTerminated = False, world = ()\<rparr>) =
       (Some (Inl (Error unexpectedResponse)), \<lparr>hasTerminated = False, world = ()\<rparr>)
   \<and> awaitResult (callMiddleware (compose [ignores]) (VObj 0) VUndefined \<lparr>hasTerminated = False, world = ()\<rparr>) =
       (Some (Inl (Error undefinedResult)), \<lparr>hasTerminated = False, world = ()\<rparr>)"
proof -
  let ?s = "\<lparr>hasTerminated = False, world = ()\<rparr>"
  let ?t = "\<lparr>hasTerminated = True, world = ()\<rparr>"
  have f: "compose [forwards] (VObj 0) (resolvesTo (VObj 1)) (resolvesTo (VObj 1)) ?s =
      (Returned (VPromise (Fulfilled (VObj 1))), ?t)"
    by (simp add: compose_def composedMiddleware_def dispatch_within dispatch_past_end forwards_def
          exec_returnsNext callContinue_def resolvesTo_def promiseOrReject_promise)
  have g: "compose [ignores] (VObj 0) (resolvesTo r) (resolvesTo r) ?s =
      (Returned (VPromise (Fulfilled VUndefined)), ?s)" for r :: "unit jsval"
    by (simp add: compose_def composedMiddleware_def dispatch_within ignores_def promiseOrReject_promise)
  have 1: "awaitResult (callMiddleware (compose [forwards]) (VObj 0) (VObj 1) ?s) = (Some (Inr (VObj 1)), ?t)"
    using callMiddleware_checks [of "VObj 0" "VObj 1" "compose [forwards]" ?s "Fulfilled (VObj 1)" ?t "VObj 1" ?t] f
    by (simp add: isPromiseLike_def)
  have 2: "awaitResult (callMiddleware (compose [ignores]) (VObj 0) (VObj 1) ?s) =
      (Some (Inl (Error unexpectedResponse)), ?s)"
    using callMiddleware_checks [of "VObj 0" "VObj 1" "compose [ignores]" ?s "Fulfilled VUndefined" ?s VUndefined ?s] g
    by (simp add: isPromiseLike_def)
  have 3: "awaitResult (callMiddleware (compose [ignores]) (VObj 0) VUndefined ?s) =
      (Some (Inl (Error undefinedResult)), ?s)"
    using callMiddleware_checks [of "VObj 0" VUndefined "compose [ignores]" ?s "Fulfilled VUndefined" ?s VUndefined ?s] g
    by (simp add: isPromiseLike_def)
  from 1 2 3 show ?thesis by simp
qed

subsection \<open>The order of the deep brigade\<close>

lemma deep_dispatch:
  assumes v: "\<not> isPromiseLike v"
  shows "i \<le> n \<Longrightarrow> \<not> hasTerminated s \<Longrightarrow>
    \<exists>p. dispatchToMiddleware (deepBrigade n) request (resolvesTo v) terminate i s =
          (Returned (VPromise p), s\<lparr>hasTerminated := True, world := world s @ map Before [i..<n]\<rparr>)
       \<and> (\<forall>s'. settle p s' = (Some (Inr v), s'\<lparr>world := world s' @ map After (rev [i..<n])\<rparr>))"
proof (induction "n - i" arbitrary: i s)
  case 0
  then have "i = n" by simp
  with 0 v show ?case
    by (simp add: dispatch_past_end deepBrigade_def callContinue_def resolvesTo_def
          promiseOrReject_promise promiseResolve_plain)
next
  case (Suc k)
  then have lt: "i < n" and k: "k = n - (i + 1)" and le: "i + 1 \<le> n" by simp_all
  let ?s1 = "s\<lparr>world := world s @ [Before i]\<rparr>"
  from Suc.prems have nt: "\<not> hasTerminated ?s1" by simp
  from Suc.hyps(1) [OF k le nt] obtain p where
    d: "dispatchToMiddleware (deepBrigade n) request (resolvesTo v) terminate (i + 1) ?s1 =
          (Returned (VPromise p), ?s1\<lparr>hasTerminated := True, world := world ?s1 @ map Before [i + 1..<n]\<rparr>)"
    and st: "\<And>s'. settle p s' = (Some (Inr v), s'\<lparr>world := world s' @ map After (rev [i + 1..<n])\<rparr>)"
    by blast
  have upt: "[i..<n] = i # [i + 1..<n]" using lt by (simp add: upt_conv_Cons)
  show ?case
    using lt Suc.prems d st v
    by (simp add: dispatch_within deepBrigade_def deep_def promiseOrReject_promise
          settle_promiseThen upt promiseResolve_plain)
qed

text \<open>
  Claim C2. For the brigade of \<open>n\<close> middleware in which the one at position \<open>i\<close>
  records \<open>Before i\<close>, awaits \<^verbatim>\<open>next()\<close>, records \<open>After i\<close> and returns the result,
  and a \<^verbatim>\<open>next\<close> that resolves to \<open>v\<close>: when the composed unit returns, the before-marks
  \<open>0 .. n - 1\<close> have been recorded in brigade order, and awaiting its promise yields
  \<open>v\<close> with the after-marks \<open>n - 1 .. 0\<close> recorded after them, in reverse order.
\<close>

theorem deep_brigade_order:
  assumes "\<not> isPromiseLike v"
  shows "world (snd (composedMiddleware (deepBrigade n) request (resolvesTo v) terminate s)) =
           world s @ map Before [0..<n]
       \<and> awaitResult (composedMiddleware (deepBrigade n) request (resolvesTo v) terminate s) =
           (Some (Inr v),
            \<lparr>hasTerminated = True, world = world s @ map Before [0..<n] @ map After (rev [0..<n])\<rparr>)"
proof -
  let ?s0 = "s\<lparr>hasTerminated := False\<rparr>"
  have "\<not> hasTerminated ?s0" by simp
  from deep_dispatch [OF assms _ this, of 0 n request terminate] obtain p where
    d: "dispatchToMiddleware (deepBrigade n) request (resolvesTo v) terminate 0 ?s0 =
          (Returned (VPromise p), ?s0\<lparr>hasTerminated := True, world := world ?s0 @ map Before [0..<n]\<rparr>)"
    and st: "\<And>s'. settle p s' = (Some (Inr v), s'\<lparr>world := world s' @ map After (rev [0..<n])\<rparr>)"
    by auto
  show ?thesis
    by (simp add: composedMiddleware_def d st)
qed

theorem deep_brigade_order_witness:
  "\<not> isPromiseLike (VObj 0 :: (mark list) jsval)
   \<and> awaitResult (composedMiddleware (deepBrigade 3) (VObj 1) (resolvesTo (VObj 0)) (resolvesTo (VObj 0))
        \<lparr>hasTerminated = False, world = []\<rparr>) =
       (Some (Inr (VObj 0)),
        \<lparr>hasTerminated = True,
         world = [Before 0, Before 1, Before 2, After 2, After 1, After 0]\<rparr>)"
  using deep_brigade_order [of "VObj 0" 3 "VObj 1" "resolvesTo (VObj 0)" "\<lparr>hasTerminated = False, world = []\<rparr>"]
  by (simp add: isPromiseLike_def upt_rec)

subsection \<open>Errors surface as rejections\<close>





lemma passesOn_returnsNext: "passesOn returnsNext"
  by (simp add: passesOn_def failsWith_def exec_returnsNext)



text \<open>
  A middleware that drops the outcome of \<^verbatim>\<open>next()\<close> and resolves to a value of its own
  does not pass a failure on.
\<close>

lemma swallowing_does_not_pass_on:
  "\<not> passesOn (CallNext (\<lambda>out. Return (VPromise (Fulfilled VNull))) :: unit prog)"
proof
  assume p: "passesOn (CallNext (\<lambda>out. Return (VPromise (Fulfilled VNull))) :: unit prog)"
  let ?nx = "\<lambda>s :: unit invocation. (Raised (Error ''test'') :: unit outcome, s)"
  have "failsWith (Error ''test'') ?nx" by (simp add: failsWith_def)
  with p have "failsWith (Error ''test'')
      (exec (CallNext (\<lambda>out. Return (VPromise (Fulfilled VNull)))) ?nx ?nx)"
    unfolding passesOn_def by blast
  then have "\<not> hasTerminated \<lparr>hasTerminated = False, world = ()\<rparr> \<longrightarrow>
      fst (awaitResult (exec (CallNext (\<lambda>out. Return (VPromise (Fulfilled VNull)))) ?nx ?nx
        \<lparr>hasTerminated = False, world = ()\<rparr>)) = Some (Inl (Error ''test''))"
    unfolding failsWith_def by (rule spec)
  then show False by simp
qed





subsection \<open>The termination flag\<close>

lemma exec_flag_invariant:
  assumes nx: "\<And>s. hasTerminated s = b \<Longrightarrow> hasTerminated (snd (nx s)) = b"
    and tm: "\<And>s. hasTerminated s = b \<Longrightarrow> hasTerminated (snd (tm s)) = b"
  shows "hasTerminated s = b \<Longrightarrow> hasTerminated (snd (exec p nx tm s)) = b"
proof (induction p arbitrary: s)
  case (CallNext k)
  obtain out s' where c: "nx s = (out, s')" by (cases "nx s")
  with nx [OF CallNext.prems] have "hasTerminated s' = b" by simp
  then have "hasTerminated (snd (exec (k out) nx tm s')) = b"
    by (rule CallNext.IH [OF rangeI])
  with c show ?case by simp
next
  case (CallTerminate k)
  obtain out s' where c: "tm s = (out, s')" by (cases "tm s")
  with tm [OF CallTerminate.prems] have "hasTerminated s' = b" by simp
  then have "hasTerminated (snd (exec (k out) nx tm s')) = b"
    by (rule CallTerminate.IH [OF rangeI])
  with c show ?case by simp
next
  case (Get k)
  then show ?case by (simp add: rangeI)
qed simp_all

text \<open>
  Claim C1 as stated fails: the flag does not become true whenever a continuation is
  exercised. In the brigade of \<^verbatim>\<open>forwards\<close> and \<^verbatim>\<open>lazy\<close> the first middleware calls
  its \<^verbatim>\<open>next\<close>, the second one runs (the world counts one invocation) and returns
  without calling a continuation, and the flag is still false when the unit returns.
\<close>

theorem advance_leaves_flag_counterexample:
  "composedMiddleware [forwards, lazy] (VObj 1) (resolvesTo VNull) (resolvesTo VNull)
       \<lparr>hasTerminated = False, world = 0\<rparr> =
     (Returned (VPromise (Fulfilled (VObj 0))), \<lparr>hasTerminated = False, world = 1\<rparr>)"
  by (simp add: composedMiddleware_def dispatch_within forwards_def lazy_def exec_returnsNext
        promiseOrReject_promise)

text \<open>
  Claim C1, amended. The flag becomes true at most once per invocation, exactly when a
  shortcut is accepted or when advance walks past the end of the brigade; advance to a
  position inside the brigade leaves it as it is. Once it is true, any further
  continuation call from any position throws a protocol-violation error and changes
  nothing, and no middleware body, whatever it does with its two continuations, makes it
  false again. A body changes the flag through the continuations it calls only: with
  continuations that leave the flag alone, running it leaves the flag alone.
\<close>

theorem termination_flag_protocol:
  "(hasTerminated s \<longrightarrow>
      dispatchNext brigade request next terminate i s =
        (Raised (Error (locatedError brigade (int i) nextAfterTermination)), s)
      \<and> dispatchTerminate brigade terminate i s =
        (Raised (Error (locatedError brigade (int i) terminateAfterTermination)), s))
   \<and> (\<not> hasTerminated s \<longrightarrow>
      dispatchTerminate brigade terminate i s = callContinue terminate (s\<lparr>hasTerminated := True\<rparr>)
      \<and> hasTerminated (snd (dispatchTerminate brigade terminate i s)))
   \<and> (\<not> hasTerminated s \<and> length brigade \<le> i + 1 \<longrightarrow>
      dispatchNext brigade request next terminate i s =
        promiseOrReject brigade (i + 1) (callContinue next (s\<lparr>hasTerminated := True\<rparr>))
      \<and> hasTerminated (snd (dispatchNext brigade request next terminate i s)))
   \<and> (\<not> hasTerminated s \<and> i + 1 < length brigade \<longrightarrow>
      dispatchNext brigade request next terminate i s =
        promiseOrReject brigade (i + 1)
          (exec (body (brigade ! (i + 1)) request)
             (dispatchNext brigade request next terminate (i + 1))
             (dispatchTerminate brigade terminate (i + 1)) s))
   \<and> (hasTerminated s \<longrightarrow>
      hasTerminated (snd (exec p (dispatchNext brigade request next terminate i)
                                 (dispatchTerminate brigade terminate i) s)))
   \<and> ((\<forall>s'. hasTerminated (snd (nx s')) = hasTerminated s')
        \<and> (\<forall>s'. hasTerminated (snd (tm s')) = hasTerminated s') \<longrightarrow>
      hasTerminated (snd (exec p nx tm s)) = hasTerminated s)"
proof -
  have a: "dispatchNext brigade request next terminate j s' =
        (Raised (Error (locatedError brigade (int j) nextAfterTermination)), s')"
    if "hasTerminated s'" for j s'
    using that by (simp add: dispatch_terminated)
  have b: "dispatchTerminate brigade terminate j s' =
        (Raised (Error (locatedError brigade (int j) terminateAfterTermination)), s')"
    if "hasTerminated s'" for j s'
    using that by (simp add: dispatchTerminate_def)
  have c: "hasTerminated (snd (promiseOrReject brigade j r)) = hasTerminated (snd r)" for j r
    by (cases r; cases "fst r") (auto simp add: promiseOrReject_def)
  have e: "hasTerminated (snd (exec p (dispatchNext brigade request next terminate i)
                                 (dispatchTerminate brigade terminate i) s)) = True" if "hasTerminated s = True"
    using _ _ that by (rule exec_flag_invariant) (simp_all add: dispatch_terminated dispatchTerminate_def)
  have f: "hasTerminated (snd (exec p nx tm s)) = hasTerminated s"
    if "\<forall>s'. hasTerminated (snd (nx s')) = hasTerminated s'"
      and "\<forall>s'. hasTerminated (snd (tm s')) = hasTerminated s'"
    by (rule exec_flag_invariant [where b = "hasTerminated s"]) (simp_all add: that)
  show ?thesis
    using a [of s i] b [of s i] e f
    by (auto simp add: dispatchTerminate_def callContinue_flag dispatch_past_end dispatch_within c)
qed

theorem termination_flag_protocol_witness:
  "hasTerminated \<lparr>hasTerminated = True, world = 0::nat\<rparr>
   \<and> dispatchNext [forwards, lazy] (VObj 1) (resolvesTo VNull) (resolvesTo VNull) 0
        \<lparr>hasTerminated = True, world = 0\<rparr> =
       (Raised (Error (''Composed middleware #0 '' @ quoted ''forwards'' @ '' '' @ nextAfterTermination)),
        \<lparr>hasTerminated = True, world = 0\<rparr>)
   \<and> dispatchTerminate [forwards, lazy] (resolvesTo VNull) 1 \<lparr>hasTerminated = True, world = 0\<rparr> =
       (Raised (Error (''Composed middleware #1 '' @ quoted ''lazy'' @ '' '' @ terminateAfterTermination)),
        \<lparr>hasTerminated = True, world = 0\<rparr>)
   \<and> \<not> hasTerminated \<lparr>hasTerminated = False, world = 0::nat\<rparr>
   \<and> dispatchTerminate [forwards, lazy] (resolvesTo VNull) 1 \<lparr>hasTerminated = False, world = 0\<rparr> =
       (Returned (VPromise (Fulfilled VNull)), \<lparr>hasTerminated = True, world = 0\<rparr>)
   \<and> length [forwards, lazy] \<le> 1 + 1
   \<and> dispatchNext [forwards, lazy] (VObj 1) (resolvesTo VNull) (resolvesTo VNull) 1
        \<lparr>hasTerminated = False, world = 0\<rparr> =
       (Returned (VPromise (Fulfilled VNull)), \<lparr>hasTerminated = True, world = 0\<rparr>)
   \<and> 0 + 1 < length [forwards, lazy]
   \<and> dispatchNext [forwards, lazy] (VObj 1) (resolvesTo VNull) (resolvesTo VNull) 0
        \<lparr>hasTerminated = False, world = 0\<rparr> =
       (Returned (VPromise (Fulfilled (VObj 0))), \<lparr>hasTerminated = False, world = 1\<rparr>)
   \<and> hasTerminated (snd (exec returnsTerminate
        (dispatchNext [forwards, lazy] (VObj 1) (resolvesTo VNull) (resolvesTo VNull) 0)
        (dispatchTerminate [forwards, lazy] (resolvesTo VNull) 0) \<lparr>hasTerminated = True, world = 0\<rparr>))
   \<and> (\<forall>s' :: nat invocation. hasTerminated (snd (Returned VNull :: nat outcome, s')) = hasTerminated s')
   \<and> hasTerminated (snd (exec returnsTerminate (\<lambda>s'. (Returned VNull, s')) (\<lambda>s'. (Returned VNull, s'))
        \<lparr>hasTerminated = False, world = 0::nat\<rparr>)) = False"
proof -
  let ?b = "[forwards, lazy]"
  let ?t = "\<lparr>hasTerminated = True, world = 0::nat\<rparr>"
  let ?f = "\<lparr>hasTerminated = False, world = 0::nat\<rparr>"
  let ?k = "\<lambda>s' :: nat invocation. (Returned VNull :: nat outcome, s')"
  note t0 = termination_flag_protocol [of ?t ?b "VObj 1" "resolvesTo VNull" "resolvesTo VNull" 0 returnsTerminate ?k ?k]
  note t1 = termination_flag_protocol [of ?t ?b "VObj 1" "resolvesTo VNull" "resolvesTo VNull" 1 returnsTerminate ?k ?k]
  note f0 = termination_flag_protocol [of ?f ?b "VObj 1" "resolvesTo VNull" "resolvesTo VNull" 0 returnsTerminate ?k ?k]
  note f1 = termination_flag_protocol [of ?f ?b "VObj 1" "resolvesTo VNull" "resolvesTo VNull" 1 returnsTerminate ?k ?k]
  have a: "dispatchNext ?b (VObj 1) (resolvesTo VNull) (resolvesTo VNull) 0 ?t =
       (Raised (Error (''Composed middleware #0 '' @ quoted ''forwards'' @ '' '' @ nextAfterTermination)), ?t)"
    using t0 by (simp add: locatedError_def intToString_def forwards_def)
  have b: "dispatchTerminate ?b (resolvesTo VNull) 1 ?t =
       (Raised (Error (''Composed middleware #1 '' @ quoted ''lazy'' @ '' '' @ terminateAfterTermination)), ?t)"
    using t1 by (simp add: locatedError_def intToString_def lazy_def)
  have c: "dispatchTerminate ?b (resolvesTo VNull) 1 ?f = (Returned (VPromise (Fulfilled VNull)), ?t)"
    using f1 by (simp add: callContinue_def resolvesTo_def)
  have d: "dispatchNext ?b (VObj 1) (resolvesTo VNull) (resolvesTo VNull) 1 ?f =
       (Returned (VPromise (Fulfilled VNull)), ?t)"
    using f1 by (simp add: callContinue_def resolvesTo_def promiseOrReject_promise)
  have e: "dispatchNext ?b (VObj 1) (resolvesTo VNull) (resolvesTo VNull) 0 ?f =
       (Returned (VPromise (Fulfilled (VObj 0))), \<lparr>hasTerminated = False, world = 1\<rparr>)"
    using f0 by (simp add: lazy_def promiseOrReject_promise)
  have f: "hasTerminated (snd (exec returnsTerminate
        (dispatchNext ?b (VObj 1) (resolvesTo VNull) (resolvesTo VNull) 0)
        (dispatchTerminate ?b (resolvesTo VNull) 0) ?t))"
    using t0 by simp
  have g: "hasTerminated (snd (exec returnsTerminate ?k ?k ?f)) = False"
    using f0 by simp
  from a b c d e f g show ?thesis by simp
qed

subsection \<open>The repository's tests on the model\<close>

text \<open>
  Four tests of the repository, run on the model: calling \<^verbatim>\<open>next\<close> twice at the
  beginning of a brigade, \<^verbatim>\<open>terminate\<close> after \<^verbatim>\<open>next\<close>, \<^verbatim>\<open>next\<close> after an awaited
  \<^verbatim>\<open>terminate\<close>, and a middleware that drops the promise of \<^verbatim>\<open>next\<close>. Each gives the
  rejection the test expects.
\<close>

lemma test_next_twice_at_the_beginning:
  "composedMiddleware [nextTwice, forwards] (VObj 0) (resolvesTo (VObj 1)) (resolvesTo (VObj 1))
       \<lparr>hasTerminated = False, world = ()\<rparr> =
     (Returned (VPromise (Rejected (Error
        (''Composed middleware #0 '' @ quoted ''nextTwice'' @ '' '' @ nextAfterTermination)))),
      \<lparr>hasTerminated = True, world = ()\<rparr>)"
  by (simp add: composedMiddleware_def dispatch_within dispatch_past_end dispatch_terminated
        nextTwice_def forwards_def exec_returnsNext callContinue_def resolvesTo_def
        promiseOrReject_promise promiseOrReject_raised locatedError_def intToString_def)

lemma test_terminate_after_next:
  "composedMiddleware [nextThenTerminate] (VObj 0) (resolvesTo (VObj 1)) (resolvesTo (VObj 1))
       \<lparr>hasTerminated = False, world = ()\<rparr> =
     (Returned (VPromise (Rejected (Error
        (''Composed middleware #0 '' @ quoted ''badDog'' @ '' '' @ terminateAfterTermination)))),
      \<lparr>hasTerminated = True, world = ()\<rparr>)"
  by (simp add: composedMiddleware_def dispatch_within dispatch_past_end
        nextThenTerminate_def dispatchTerminate_def callContinue_def resolvesTo_def
        promiseOrReject_promise locatedError_def intToString_def)

lemma test_next_after_terminate:
  "awaitResult (composedMiddleware [terminateThenNext] (VObj 0) (resolvesTo (VObj 1)) (resolvesTo (VObj 1))
       \<lparr>hasTerminated = False, world = ()\<rparr>) =
     (Some (Inl (Error (''Composed middleware #0 '' @ quoted ''badDog'' @ '' '' @ nextAfterTermination))),
      \<lparr>hasTerminated = True, world = ()\<rparr>)"
  by (simp add: composedMiddleware_def dispatch_within dispatch_terminated
        terminateThenNext_def dispatchTerminate_def callContinue_def resolvesTo_def
        promiseOrReject_promise locatedError_def intToString_def settle_Pending)

lemma test_chain_is_broken:
  "awaitResult (callMiddleware (compose [dropsNext, forwards]) (VObj 0) (VObj 1)
       \<lparr>hasTerminated = False, world = ()\<rparr>) =
     (Some (Inl (Error unexpectedResponse)), \<lparr>hasTerminated = True, world = ()\<rparr>)"
  by (simp add: callMiddleware_def compose_def composedMiddleware_def dispatch_within dispatch_past_end
        dropsNext_def forwards_def exec_returnsNext callContinue_def resolvesTo_def
        promiseOrReject_promise settle_Pending checkResult_def)

end
